theory Spec2Isabelle
  imports
    Complex_Main
    "HOL-Library.AList"
    "HOL-Library.Sublist"
    "HOL-Library.Product_Lexorder"
begin

text \<open>
  A shallow embedding of the climate-risk advisory service: the threshold provider
  (\<^verbatim>\<open>src/config.py\<close>), the aggregation of forecast samples into daily summaries and the
  evaluation of the risk rules (\<^verbatim>\<open>src/risk_analysis.py\<close>), and the advisory composer
  (\<^verbatim>\<open>src/advisories.py\<close>). Exceptions are values, the \<^verbatim>\<open>try\<close> blocks of the source are
  the places where the model inspects them, and what a statement wrote before an
  exception was raised stays written. Logging is left out.
\<close>

section \<open>Threshold provider (src/config.py)\<close>

text \<open>
  A threshold set is a Python dict from names to numbers. Every threshold of
  \<^verbatim>\<open>DEFAULT_THRESHOLDS\<close> is a Python int and the adjustment rules keep them so;
  the dict is a map from strings to \<open>int\<close>.
\<close>

type_synonym thresholds = "string \<rightharpoonup> int"

text \<open>\<^verbatim>\<open>d.get(k, default)\<close>\<close>

definition dict_get :: "('k \<rightharpoonup> 'v) \<Rightarrow> 'k \<Rightarrow> 'v \<Rightarrow> 'v" where
  "dict_get d k dflt = (case d k of None \<Rightarrow> dflt | Some v \<Rightarrow> v)"

definition DEFAULT_THRESHOLDS :: thresholds where
  "DEFAULT_THRESHOLDS = map_of
     [(''drought_risk_days'', 7), (''drought_risk_mm'', 2),
      (''flood_risk_mm_per_day'', 50), (''heavy_rain_mm_per_3h'', 15),
      (''heatwave_temp_c'', 38), (''heatwave_days'', 3),
      (''frost_risk_temp_c'', 2),
      (''high_wind_speed_ms'', 15),
      (''high_humidity_perc'', 85), (''high_humidity_duration_h'', 12)]"

text \<open>
  The four \<^verbatim>\<open>if\<close> statements of \<^verbatim>\<open>get_adjusted_thresholds\<close>, each writing into the
  local dict \<^verbatim>\<open>adjusted\<close>; one function per statement, in the order of the source.
\<close>

definition adjust_stage :: "string \<Rightarrow> thresholds \<Rightarrow> thresholds" where
  "adjust_stage stage adjusted =
     (if stage \<in> set [''Flowering'', ''Fruiting/Maturity''] then
        (let adjusted1 = adjusted(''heatwave_temp_c'' \<mapsto>
               max 32 (dict_get adjusted ''heatwave_temp_c'' 38 - 3))
         in adjusted1(''drought_risk_days'' \<mapsto>
               max 3 (dict_get adjusted1 ''drought_risk_days'' 7 - 2)))
      else adjusted)"

definition adjust_rice :: "string \<Rightarrow> string \<Rightarrow> thresholds \<Rightarrow> thresholds" where
  "adjust_rice crop stage adjusted =
     (if crop = ''Rice'' \<and> stage \<noteq> ''Germination/Seedling'' then
        adjusted(''drought_risk_days'' \<mapsto>
          min 10 (dict_get adjusted ''drought_risk_days'' 7 + 3))
      else adjusted)"

definition adjust_vegetables :: "string \<Rightarrow> string \<Rightarrow> thresholds \<Rightarrow> thresholds" where
  "adjust_vegetables crop stage adjusted =
     (if crop = ''Vegetables'' \<and> stage = ''Germination/Seedling'' then
        adjusted(''frost_risk_temp_c'' \<mapsto>
          max 3 (dict_get adjusted ''frost_risk_temp_c'' 2 + 1))
      else adjusted)"

definition adjust_maize :: "string \<Rightarrow> string \<Rightarrow> thresholds \<Rightarrow> thresholds" where
  "adjust_maize crop stage adjusted =
     (if crop = ''Maize'' \<and> stage \<in> set [''Fruiting/Maturity''] then
        adjusted(''high_wind_speed_ms'' \<mapsto>
          max 10 (dict_get adjusted ''high_wind_speed_ms'' 15 - 3))
      else adjusted)"

text \<open>
  Dict objects live in a store: a list of objects, an object's address being its
  index. \<^verbatim>\<open>base_thresholds.copy()\<close> allocates a new object holding the contents of
  the base; every later write goes to that new object, and its address is returned.
  The function takes the store and the address of the base dict and returns the
  new store and the address of the result.
\<close>

type_synonym store = "thresholds list"

definition get_adjusted_thresholds :: "store \<Rightarrow> nat \<Rightarrow> string \<Rightarrow> string \<Rightarrow> store \<times> nat" where
  "get_adjusted_thresholds h base_thresholds crop stage =
     (let adjusted = length h;
          h0 = h @ [h ! base_thresholds];
          h1 = h0[adjusted := adjust_stage stage (h0 ! adjusted)];
          h2 = h1[adjusted := adjust_rice crop stage (h1 ! adjusted)];
          h3 = h2[adjusted := adjust_vegetables crop stage (h2 ! adjusted)];
          h4 = h3[adjusted := adjust_maize crop stage (h3 ! adjusted)]
      in (h4, adjusted))"

text \<open>
  The two rules as the specification words them, each a function of the threshold
  set it is given (rule 1: stage sensitivity; rule 2: the drought-days relaxation
  for rice).
\<close>

definition spec_rule1 :: "thresholds \<Rightarrow> thresholds" where
  "spec_rule1 t = t(''heatwave_temp_c'' \<mapsto> max 32 (dict_get t ''heatwave_temp_c'' 38 - 3),
                    ''drought_risk_days'' \<mapsto> max 3 (dict_get t ''drought_risk_days'' 7 - 2))"

definition spec_rule2 :: "thresholds \<Rightarrow> thresholds" where
  "spec_rule2 t = t(''drought_risk_days'' \<mapsto> min 10 (dict_get t ''drought_risk_days'' 7 + 3))"

section \<open>Values of the forecast document\<close>

text \<open>
  The forecast document is parsed JSON: \<^verbatim>\<open>None\<close>, booleans, numbers, strings, lists
  and dicts. A dict is an association list read with \<open>map_of\<close>. Numbers are exact
  rationals: a Python int is one, and a float is taken at its exact value, without
  rounding of sums and without NaN or infinities.
\<close>

datatype json = JNull | JBool bool | JNum rat | JStr string
  | JList "json list" | JDict "(string \<times> json) list"

text \<open>The exceptions the code under study can meet.\<close>

datatype exn = KeyError | TypeError | ValueError | AttributeError | OverflowError | OSError

text \<open>\<^verbatim>\<open>entry.get(key, default)\<close> on a dict.\<close>

definition obj_get :: "(string \<times> json) list \<Rightarrow> string \<Rightarrow> json \<Rightarrow> json" where
  "obj_get d k dflt = (case map_of d k of None \<Rightarrow> dflt | Some v \<Rightarrow> v)"

text \<open>
  The numeric value of an operand of \<^verbatim>\<open>max\<close>, \<^verbatim>\<open>min\<close>, \<^verbatim>\<open>+\<close>, \<^verbatim>\<open>>\<close> or \<^verbatim>\<open>>=\<close> against a
  number: a number is itself, a bool is 0 or 1 (Python's bool is an int), and every
  other value makes the operator raise \<^verbatim>\<open>TypeError\<close>.
\<close>

fun number :: "json \<Rightarrow> rat option" where
  "number (JNum x) = Some x"
| "number (JBool b) = Some (if b then 1 else 0)"
| "number _ = None"

section \<open>Calendar dates and rendering\<close>

text \<open>
  A calendar date is (year, month, day), ordered lexicographically, which is the
  order of Python's \<^verbatim>\<open>date\<close> objects and, for years of four digits, of the
  \<^verbatim>\<open>'%Y-%m-%d'\<close> strings that the source uses as keys. The key of a daily summary
  is modelled by the date itself; \<open>strftime\<close> renders it where a message needs it.
\<close>

type_synonym date = "nat \<times> nat \<times> nat"

fun show_nat :: "nat \<Rightarrow> string" where
  "show_nat n = (if n < 10 then [''0123456789'' ! n]
                 else show_nat (n div 10) @ [''0123456789'' ! (n mod 10)])"

declare show_nat.simps [simp del]

text \<open>\<^verbatim>\<open>str(n)\<close> for a Python int.\<close>

definition str_int :: "int \<Rightarrow> string" where
  "str_int i = (if i < 0 then ''-'' @ show_nat (nat (- i)) else show_nat (nat i))"

definition zero_pad :: "nat \<Rightarrow> nat \<Rightarrow> string" where
  "zero_pad w n = replicate (w - length (show_nat n)) (CHR ''0'') @ show_nat n"

text \<open>\<^verbatim>\<open>strftime('%Y-%m-%d')\<close>\<close>

fun strftime :: "date \<Rightarrow> string" where
  "strftime (y, m, d) = zero_pad 4 y @ ''-'' @ zero_pad 2 m @ ''-'' @ zero_pad 2 d"

text \<open>
  \<^verbatim>\<open>format(x, '.kf')\<close>: the value rounded to k decimals, ties to even, with the sign
  of a negative value kept.
\<close>

definition round_half_even :: "rat \<Rightarrow> int" where
  "round_half_even x =
     (let f = \<lfloor>x\<rfloor>; r = x - of_int f
      in if r < 1 / 2 then f else if 1 / 2 < r then f + 1
         else if even f then f else f + 1)"

definition format_f :: "nat \<Rightarrow> rat \<Rightarrow> string" where
  "format_f k x =
     (let digits = show_nat (nat (round_half_even (\<bar>x\<bar> * 10 ^ k)));
          padded = replicate (Suc k - length digits) (CHR ''0'') @ digits;
          cut = length padded - k
      in (if x < 0 then ''-'' else []) @ take cut padded
         @ (if k = 0 then [] else ''.'' @ drop cut padded))"

text \<open>The degree sign of the messages, as its two UTF-8 bytes.\<close>

definition degree_C :: string where
  "degree_C = [CHR 0xC2, CHR 0xB0, CHR ''C'']"

text \<open>
  Date arithmetic, after the reference implementation of Python's \<^verbatim>\<open>datetime\<close>
  (\<^verbatim>\<open>_ymd2ord\<close>, \<^verbatim>\<open>_ord2ymd\<close>): \<^verbatim>\<open>date - timedelta(days=n)\<close> goes through the
  proleptic Gregorian ordinal and raises \<^verbatim>\<open>OverflowError\<close> outside years 1..9999.
\<close>

definition is_leap :: "nat \<Rightarrow> bool" where
  "is_leap year = (year mod 4 = 0 \<and> (year mod 100 \<noteq> 0 \<or> year mod 400 = 0))"

definition DAYS_IN_MONTH :: "nat list" where
  "DAYS_IN_MONTH = [0, 31, 28, 31, 30, 31, 30, 31, 31, 30, 31, 30, 31]"

definition DAYS_BEFORE_MONTH :: "nat list" where
  "DAYS_BEFORE_MONTH = [0, 0, 31, 59, 90, 120, 151, 181, 212, 243, 273, 304, 334]"

definition days_before_year :: "nat \<Rightarrow> nat" where
  "days_before_year year =
     (let y = year - 1 in y * 365 + y div 4 - y div 100 + y div 400)"

definition days_before_month :: "nat \<Rightarrow> nat \<Rightarrow> nat" where
  "days_before_month year month =
     DAYS_BEFORE_MONTH ! month + (if 2 < month \<and> is_leap year then 1 else 0)"

fun ymd2ord :: "date \<Rightarrow> nat" where
  "ymd2ord (year, month, day) =
     days_before_year year + days_before_month year month + day"

definition ord2ymd :: "nat \<Rightarrow> date" where
  "ord2ymd ordinal =
     (let n = ordinal - 1;
          n400 = n div 146097; n = n mod 146097;
          year = n400 * 400 + 1;
          n100 = n div 36524; n = n mod 36524;
          n4 = n div 1461; n = n mod 1461;
          n1 = n div 365; n = n mod 365;
          year = year + n100 * 100 + n4 * 4 + n1
      in if n1 = 4 \<or> n100 = 4 then (year - 1, 12, 31)
         else
           (let leapyear = (n1 = 3 \<and> (n4 \<noteq> 24 \<or> n100 = 3));
                month = (n + 50) div 32;
                preceding = DAYS_BEFORE_MONTH ! month + (if 2 < month \<and> leapyear then 1 else 0)
            in if n < preceding then
                 (let month = month - 1;
                      preceding = preceding
                        - (DAYS_IN_MONTH ! month + (if month = 2 \<and> leapyear then 1 else 0))
                  in (year, month, n - preceding + 1))
               else (year, month, n - preceding + 1)))"

definition MAXORDINAL :: int where
  "MAXORDINAL = 3652059"

text \<open>\<^verbatim>\<open>d - timedelta(days=n)\<close>\<close>

definition date_minus_days :: "date \<Rightarrow> int \<Rightarrow> exn + date" where
  "date_minus_days d n =
     (let ordinal = int (ymd2ord d) - n
      in if 0 < ordinal \<and> ordinal \<le> MAXORDINAL then Inr (ord2ymd (nat ordinal))
         else Inl OverflowError)"

text \<open>
  What the evaluation takes from its environment: the current date
  (\<^verbatim>\<open>date.today()\<close>) and the conversion of an epoch timestamp to the local calendar
  date (\<^verbatim>\<open>datetime.fromtimestamp(ts)\<close>, which depends on the time zone of the host
  and raises for a timestamp out of range).
\<close>

record clock =
  today :: date
  fromtimestamp :: "rat \<Rightarrow> exn + date"

section \<open>Daily aggregation (src/risk_analysis.py, first loop)\<close>

record summary =
  max_temp :: rat
  min_temp :: rat
  total_rain :: rat
  max_wind_speed :: rat
  humidity_readings :: "json list"
  rain_3h_intervals :: "rat list"
  count :: nat

text \<open>The summary a day starts with.\<close>

definition new_summary :: summary where
  "new_summary = \<lparr>max_temp = - 100, min_temp = 200, total_rain = 0,
     max_wind_speed = 0, humidity_readings = [], rain_3h_intervals = [], count = 0\<rparr>"

text \<open>
  The statements that fold one sample into the summary of its day. The summary is
  updated in place, so what was written before an exception stays written: the
  result is the summary as the statements left it and the exception, if any.
\<close>

definition update_summary :: "summary \<Rightarrow> (string \<times> json) list \<Rightarrow> summary \<times> exn option" where
  "update_summary summary entry =
     (let main = obj_get entry ''main'' (JDict []);
          wind = obj_get entry ''wind'' (JDict []);
          rain_data = obj_get entry ''rain'' (JDict [])
      in case rain_data of
           JDict rd \<Rightarrow>
             (let rain_3h = obj_get rd ''3h'' (JNum 0)
              in case main of
                   JDict m \<Rightarrow>
                     (case number (obj_get m ''temp_max'' (JNum (max_temp summary))) of
                        None \<Rightarrow> (summary, Some TypeError)
                      | Some tmax \<Rightarrow>
                         (let s1 = summary\<lparr>max_temp := max (max_temp summary) tmax\<rparr>
                          in case number (obj_get m ''temp_min'' (JNum (min_temp s1))) of
                               None \<Rightarrow> (s1, Some TypeError)
                             | Some tmin \<Rightarrow>
                                (let s2 = s1\<lparr>min_temp := min (min_temp s1) tmin\<rparr>
                                 in case number rain_3h of
                                      None \<Rightarrow> (s2, Some TypeError)
                                    | Some r \<Rightarrow>
                                       (let s3 = s2\<lparr>total_rain := total_rain s2 + r\<rparr>
                                        in case wind of
                                             JDict w \<Rightarrow>
                                               (case number (obj_get w ''speed'' (JNum 0)) of
                                                  None \<Rightarrow> (s3, Some TypeError)
                                                | Some speed \<Rightarrow>
                                                   (let s4 = s3\<lparr>max_wind_speed :=
                                                               max (max_wind_speed s3) speed\<rparr>;
                                                        s5 = s4\<lparr>humidity_readings :=
                                                               humidity_readings s4
                                                               @ [obj_get m ''humidity'' JNull]\<rparr>;
                                                        s6 = (if 0 < r
                                                              then s5\<lparr>rain_3h_intervals :=
                                                                     rain_3h_intervals s5 @ [r]\<rparr>
                                                              else s5)
                                                    in (s6\<lparr>count := count s6 + 1\<rparr>, None)))
                                           | _ \<Rightarrow> (s3, Some AttributeError)))))
                 | _ \<Rightarrow> (summary, Some AttributeError))
         | _ \<Rightarrow> (summary, Some AttributeError))"

text \<open>
  \<^verbatim>\<open>daily_summary\<close> is a dict in insertion order: an association list, written with
  \<open>AList.update\<close> (in place for a key that is there, at the end for a new one).
\<close>

type_synonym daily_summary = "(date \<times> summary) list"

text \<open>
  One iteration of the aggregation loop, before its \<^verbatim>\<open>except\<close> clause: the new
  \<^verbatim>\<open>daily_summary\<close> and the exception raised, if any.
\<close>

definition aggregate_entry :: "clock \<Rightarrow> daily_summary \<Rightarrow> json \<Rightarrow> daily_summary \<times> exn option" where
  "aggregate_entry clk daily_summary entry =
     (case entry of
        JDict e \<Rightarrow>
          (case obj_get e ''dt'' JNull of
             JNull \<Rightarrow> (daily_summary, None)
           | ts \<Rightarrow>
              (case number ts of
                 None \<Rightarrow> (daily_summary, Some TypeError)
               | Some t \<Rightarrow>
                  (case fromtimestamp clk t of
                     Inl x \<Rightarrow> (daily_summary, Some x)
                   | Inr day_str \<Rightarrow>
                      (let summary = (case map_of daily_summary day_str of
                                        None \<Rightarrow> new_summary | Some s \<Rightarrow> s);
                           (summary', x) = update_summary summary e
                       in (AList.update day_str summary' daily_summary, x)))))
      | _ \<Rightarrow> (daily_summary, None))"

text \<open>
  The aggregation loop. The inner \<^verbatim>\<open>except\<close> catches four exception classes and
  goes on with the next sample; any other exception leaves the loop (and reaches
  the outer \<^verbatim>\<open>except\<close> of the function).
\<close>

fun aggregate :: "clock \<Rightarrow> daily_summary \<Rightarrow> json list \<Rightarrow> exn + daily_summary" where
  "aggregate clk daily_summary [] = Inr daily_summary"
| "aggregate clk daily_summary (entry # forecast_list) =
     (case aggregate_entry clk daily_summary entry of
        (ds, None) \<Rightarrow> aggregate clk ds forecast_list
      | (ds, Some x) \<Rightarrow>
          if x \<in> set [KeyError, TypeError, ValueError, AttributeError]
          then aggregate clk ds forecast_list
          else Inl x)"

section \<open>The risk report\<close>

record category =
  warning :: bool
  details :: "string list"

record risk_report =
  drought :: category
  flood_heavy_rain :: category
  heatwave :: category
  frost :: category
  high_wind :: category
  prolonged_high_humidity :: category
  overall_alerts :: "string list"

definition no_warning :: category where
  "no_warning = \<lparr>warning = False, details = []\<rparr>"

text \<open>The report the function starts from and returns on every early exit.\<close>

definition initial_risks :: risk_report where
  "initial_risks = \<lparr>drought = no_warning, flood_heavy_rain = no_warning,
     heatwave = no_warning, frost = no_warning, high_wind = no_warning,
     prolonged_high_humidity = no_warning, overall_alerts = []\<rparr>"

section \<open>Advisory composer (src/advisories.py)\<close>

text \<open>
  Strings are byte strings in UTF-8; the three symbols of the messages are given by
  their bytes (cross mark, check mark, warning sign with its variation selector).
\<close>

definition cross_mark :: string where
  "cross_mark = [CHR 0xE2, CHR 0x9D, CHR 0x8C]"

definition check_mark :: string where
  "check_mark = [CHR 0xE2, CHR 0x9C, CHR 0x85]"

definition warning_sign :: string where
  "warning_sign = [CHR 0xE2, CHR 0x9A, CHR 0xA0, CHR 0xEF, CHR 0xB8, CHR 0x8F]"

text \<open>
  \<^verbatim>\<open>crop_info\<close> is a dict of strings; \<^verbatim>\<open>crop_info.get('stage')\<close> is \<^verbatim>\<open>None\<close> for a
  missing key, which an f-string renders as \<^verbatim>\<open>None\<close>.
\<close>

type_synonym crop_info = "string \<rightharpoonup> string"

definition str_opt :: "string option \<Rightarrow> string" where
  "str_opt v = (case v of None \<Rightarrow> ''None'' | Some s \<Rightarrow> s)"

text \<open>
  The loop over \<^verbatim>\<open>enumerate(overall_alerts)\<close>, from index \<open>i\<close> on: an entry with
  index below 7 gives a line, the entry with index 7 gives the marker and ends the
  loop.
\<close>

definition max_details_in_advisory :: nat where
  "max_details_in_advisory = 7"

definition truncation_marker :: string where
  "truncation_marker = ''  - ... (and potentially more)''"

fun detail_lines :: "nat \<Rightarrow> string list \<Rightarrow> string list" where
  "detail_lines i [] = []"
| "detail_lines i (detail # rest) =
     (if i < max_details_in_advisory then (''  - '' @ detail) # detail_lines (Suc i) rest
      else if i = max_details_in_advisory then [truncation_marker]
      else detail_lines (Suc i) rest)"

definition drought_advice :: "crop_info \<Rightarrow> string list" where
  "drought_advice crop_info =
     [CHR 0x0A # warning_sign @ '' Drought / Dry Spell Risk:'',
      ''  - Focus on water conservation: check irrigation system efficiency, repair leaks.'']
     @ (if crop_info ''stage'' \<in> set [Some ''Flowering'', Some ''Fruiting/Maturity'']
        then [''  - CRITICAL STAGE ('' @ str_opt (crop_info ''stage'')
              @ ''): Ensure adequate water if possible, as yield is highly sensitive now.'']
        else [''  - Consider adjusting irrigation schedule if water is limited.''])"

text \<open>
  The report is \<^verbatim>\<open>None\<close> or a report with its six categories and its list of alerts
  (an empty dict, which \<^verbatim>\<open>not risks\<close> treats like \<^verbatim>\<open>None\<close>, is \<open>None\<close> here).
\<close>

text \<open>The header and fixed advice of every category whose flag is set, in the order of the source.\<close>

definition category_advice :: "risk_report \<Rightarrow> crop_info \<Rightarrow> string list" where
  "category_advice risks crop_info =
     (if warning (drought risks) then drought_advice crop_info else [])
     @ (if warning (flood_heavy_rain risks)
        then [CHR 0x0A # warning_sign @ '' Flood / Heavy Rain Risk:''] else [])
     @ (if warning (heatwave risks)
        then [CHR 0x0A # warning_sign @ '' Heatwave Risk:''] else [])
     @ (if warning (frost risks)
        then [CHR 0x0A # warning_sign @ '' Frost Risk:''] else [])
     @ (if warning (high_wind risks)
        then [CHR 0x0A # warning_sign @ '' High Wind Risk:''] else [])
     @ (if warning (prolonged_high_humidity risks)
        then [CHR 0x0A # warning_sign @ '' Prolonged High Humidity Risk:''] else [])"

definition details_header :: string where
  "details_header = CHR 0x0A # ''--- Specific Forecast Details Triggering Warnings ---''"

definition disclaimer :: "string list" where
  "disclaimer =
     [CHR 0x0A # ''---'',
      ''NOTE: These advisories are based on forecast data and general rules. Always combine with your local knowledge, field observations, and consult local agricultural experts for critical decisions.'']"

definition generate_advisories_enhanced :: "risk_report option \<Rightarrow> crop_info \<Rightarrow> string list" where
  "generate_advisories_enhanced risks_opt crop_info =
     (case risks_opt of
        None \<Rightarrow>
          [cross_mark @ '' Could not generate advisories: Risk assessment data is missing.'']
      | Some risks \<Rightarrow>
         (let has_any_warning = list_ex warning
                [drought risks, flood_heavy_rain risks, heatwave risks, frost risks,
                 high_wind risks, prolonged_high_humidity risks]
          in if \<not> has_any_warning then
               [check_mark @ '' No significant climate risks detected in the upcoming forecast based on current thresholds. Monitor crops as usual.'']
             else
               [''--- Climate Risk Advisories & Recommendations ---'']
               @ category_advice risks crop_info
               @ (if overall_alerts risks \<noteq> []
                  then details_header # detail_lines 0 (overall_alerts risks)
                  else [])
               @ disclaimer))"

section \<open>Risk evaluation (src/risk_analysis.py, second loop)\<close>

text \<open>
  The two statements that every check but the drought check runs back to back:
  \<^verbatim>\<open>risks[c]['warning'] = True\<close> and \<^verbatim>\<open>risks[c]['details'].append(alert)\<close>.
\<close>

definition trigger :: "string \<Rightarrow> category \<Rightarrow> category" where
  "trigger alert c = c\<lparr>warning := True, details := details c @ [alert]\<rparr>"

text \<open>
  Each check takes the report and the local list \<^verbatim>\<open>day_alerts\<close> and returns both.
  A summary always holds all seven keys, so the defaults of \<^verbatim>\<open>summary.get\<close> are
  never used and the fields are read directly.
\<close>

definition check_frost ::
  "thresholds \<Rightarrow> string \<Rightarrow> summary \<Rightarrow> risk_report \<times> string list \<Rightarrow> risk_report \<times> string list" where
  "check_frost th day_str summary = (\<lambda>(risks, day_alerts).
     (let frost_threshold = dict_get th ''frost_risk_temp_c'' 2
      in if min_temp summary \<le> of_int frost_threshold then
           (let alert = ''Frost Risk on '' @ day_str @ '': Min temp forecast ''
                  @ format_f 1 (min_temp summary) @ degree_C @ '' (Threshold: <= ''
                  @ str_int frost_threshold @ degree_C @ '').''
            in (risks\<lparr>frost := trigger alert (frost risks)\<rparr>, day_alerts @ [alert]))
         else (risks, day_alerts)))"

definition check_flood ::
  "thresholds \<Rightarrow> string \<Rightarrow> summary \<Rightarrow> risk_report \<times> string list \<Rightarrow> risk_report \<times> string list" where
  "check_flood th day_str summary = (\<lambda>(risks, day_alerts).
     (let flood_thresh_day = dict_get th ''flood_risk_mm_per_day'' 50;
          flood_thresh_3h = dict_get th ''heavy_rain_mm_per_3h'' 15;
          rain_intervals = rain_3h_intervals summary;
          max_3h_rain = (case rain_intervals of [] \<Rightarrow> 0 | r # rs \<Rightarrow> fold max rs r)
      in if of_int flood_thresh_day \<le> total_rain summary then
           (let alert = ''Flood Risk on '' @ day_str @ '': Total rain forecast ''
                  @ format_f 1 (total_rain summary) @ ''mm (Threshold: >= ''
                  @ str_int flood_thresh_day @ ''mm).''
            in (risks\<lparr>flood_heavy_rain := trigger alert (flood_heavy_rain risks)\<rparr>,
                day_alerts @ [alert]))
         else if of_int flood_thresh_3h \<le> max_3h_rain then
           (let alert = ''Heavy Rain Burst Risk on '' @ day_str @ '': Max 3h rain forecast ''
                  @ format_f 1 max_3h_rain @ ''mm (Threshold: >= ''
                  @ str_int flood_thresh_3h @ ''mm).''
            in (risks\<lparr>flood_heavy_rain := trigger alert (flood_heavy_rain risks)\<rparr>,
                day_alerts @ [alert]))
         else (risks, day_alerts)))"

definition check_wind ::
  "thresholds \<Rightarrow> string \<Rightarrow> summary \<Rightarrow> risk_report \<times> string list \<Rightarrow> risk_report \<times> string list" where
  "check_wind th day_str summary = (\<lambda>(risks, day_alerts).
     (let wind_threshold = dict_get th ''high_wind_speed_ms'' 15;
          max_wind = max_wind_speed summary
      in if of_int wind_threshold \<le> max_wind then
           (let alert = ''High Wind Risk on '' @ day_str @ '': Max wind forecast ''
                  @ format_f 1 max_wind @ '' m/s (Threshold: >= ''
                  @ str_int wind_threshold @ '' m/s).''
            in (risks\<lparr>high_wind := trigger alert (high_wind risks)\<rparr>, day_alerts @ [alert]))
         else (risks, day_alerts)))"

text \<open>
  The humidity check compares every reading that is not \<^verbatim>\<open>None\<close> with the threshold,
  so a reading that is not a number raises \<^verbatim>\<open>TypeError\<close> before anything is written.
\<close>

definition check_humidity ::
  "thresholds \<Rightarrow> string \<Rightarrow> summary \<Rightarrow> risk_report \<times> string list
     \<Rightarrow> exn + risk_report \<times> string list" where
  "check_humidity th day_str summary = (\<lambda>(risks, day_alerts).
     (let humid_thresh = dict_get th ''high_humidity_perc'' 85;
          humid_dur_thresh = dict_get th ''high_humidity_duration_h'' 12
      in case those (map number (filter (\<lambda>h. h \<noteq> JNull) (humidity_readings summary))) of
           None \<Rightarrow> Inl TypeError
         | Some humid_readings \<Rightarrow>
            (let high = filter (\<lambda>h. of_int humid_thresh \<le> h) humid_readings;
                 humid_hours = int (length high) * 3
             in if humid_dur_thresh \<le> humid_hours \<and> humid_readings \<noteq> [] then
                  (let avg_humid_high = (if high \<noteq> [] then sum_list high / of_nat (length high)
                                         else of_int humid_thresh);
                       alert = ''Prolonged High Humidity Risk on '' @ day_str @ '': Approx ''
                         @ str_int humid_hours @ '' hours >= '' @ str_int humid_thresh
                         @ ''% (Avg high: '' @ format_f 0 avg_humid_high
                         @ ''%, Threshold: >= '' @ str_int humid_dur_thresh @ ''h).''
                   in Inr (risks\<lparr>prolonged_high_humidity :=
                                   trigger alert (prolonged_high_humidity risks)\<rparr>,
                           day_alerts @ [alert]))
                else Inr (risks, day_alerts))))"

text \<open>
  The drought check, after the streak counter has been updated. The flag is set
  before the start date is computed, and the date subtraction can raise: the
  report is returned as it stands then, with the exception.
\<close>

definition check_drought ::
  "thresholds \<Rightarrow> date \<Rightarrow> nat \<Rightarrow> risk_report \<times> string list
     \<Rightarrow> risk_report \<times> (exn + string list)" where
  "check_drought th day_date consecutive_dry_days = (\<lambda>(risks, day_alerts).
     (let drought_mm_thresh = dict_get th ''drought_risk_mm'' 2;
          drought_days_thresh = dict_get th ''drought_risk_days'' 7
      in if drought_days_thresh \<le> int consecutive_dry_days \<and> \<not> warning (drought risks) then
           (let risks1 = risks\<lparr>drought := (drought risks)\<lparr>warning := True\<rparr>\<rparr>
            in case date_minus_days day_date (int consecutive_dry_days - 1) of
                 Inl x \<Rightarrow> (risks1, Inl x)
               | Inr start \<Rightarrow>
                  (let drought_start_day = strftime start;
                       alert = ''Drought Risk Developing: ''
                         @ str_int (int consecutive_dry_days)
                         @ '' consecutive days with <= '' @ str_int drought_mm_thresh
                         @ ''mm rain starting around '' @ drought_start_day @ ''.''
                   in (risks1\<lparr>drought := (drought risks1)
                                  \<lparr>details := details (drought risks1) @ [alert]\<rparr>\<rparr>,
                       Inr (day_alerts @ [alert]))))
         else (risks, Inr day_alerts)))"

text \<open>
  The heatwave check, after the streak counter has been updated; \<^verbatim>\<open>s in d\<close> on
  strings is \<open>sublist s d\<close>.
\<close>

definition check_heatwave ::
  "thresholds \<Rightarrow> string \<Rightarrow> nat \<Rightarrow> risk_report \<times> string list \<Rightarrow> risk_report \<times> string list" where
  "check_heatwave th day_str consecutive_hot_days = (\<lambda>(risks, day_alerts).
     (let heat_temp_thresh = dict_get th ''heatwave_temp_c'' 38;
          heat_days_thresh = dict_get th ''heatwave_days'' 3
      in if heat_days_thresh \<le> int consecutive_hot_days then
           (let already_alerted =
                  list_ex (sublist (''ending '' @ day_str)) (details (heatwave risks))
            in if \<not> already_alerted then
                 (let alert = ''Heatwave Risk: '' @ str_int (int consecutive_hot_days)
                        @ '' consecutive days >= '' @ str_int heat_temp_thresh @ degree_C
                        @ '' (ending '' @ day_str @ '').''
                  in (risks\<lparr>heatwave := trigger alert (heatwave risks)\<rparr>,
                      day_alerts @ [alert]))
               else (risks, day_alerts))
         else (risks, day_alerts)))"

text \<open>The variables the day loop carries from one iteration to the next.\<close>

record loop_state =
  risks :: risk_report
  consecutive_dry_days :: nat
  consecutive_hot_days :: nat
  days_processed_for_risk :: nat

definition initial_state :: loop_state where
  "initial_state = \<lparr>risks = initial_risks, consecutive_dry_days = 0,
     consecutive_hot_days = 0, days_processed_for_risk = 0\<rparr>"

text \<open>
  The body of the day loop from \<^verbatim>\<open>days_processed_for_risk += 1\<close> to
  \<^verbatim>\<open>risks['overall_alerts'].extend(day_alerts)\<close>: the variables as the body left
  them and the exception that ended it early, if any. An exception loses the
  local \<^verbatim>\<open>day_alerts\<close>, not what was already written to the report and the counters.
\<close>

definition assess_day :: "thresholds \<Rightarrow> date \<Rightarrow> summary \<Rightarrow> loop_state \<Rightarrow> loop_state \<times> exn option" where
  "assess_day th day_date summary st =
     (let day_str = strftime day_date;
          st1 = st\<lparr>days_processed_for_risk := days_processed_for_risk st + 1\<rparr>;
          (r3, a3) = check_wind th day_str summary
                       (check_flood th day_str summary
                         (check_frost th day_str summary (risks st1, [])))
      in case check_humidity th day_str summary (r3, a3) of
           Inl x \<Rightarrow> (st1\<lparr>risks := r3\<rparr>, Some x)
         | Inr (r4, a4) \<Rightarrow>
            (let dry = (if total_rain summary \<le> of_int (dict_get th ''drought_risk_mm'' 2)
                        then consecutive_dry_days st1 + 1 else 0);
                 st2 = st1\<lparr>consecutive_dry_days := dry\<rparr>
             in case check_drought th day_date dry (r4, a4) of
                  (r5, Inl x) \<Rightarrow> (st2\<lparr>risks := r5\<rparr>, Some x)
                | (r5, Inr a5) \<Rightarrow>
                   (let hot = (if of_int (dict_get th ''heatwave_temp_c'' 38) \<le> max_temp summary
                               then consecutive_hot_days st2 + 1 else 0);
                        st3 = st2\<lparr>consecutive_hot_days := hot\<rparr>;
                        (r6, a6) = check_heatwave th day_str hot (r5, a5);
                        r7 = (if a6 \<noteq> [] then r6\<lparr>overall_alerts := overall_alerts r6 @ a6\<rparr>
                              else r6)
                    in (st3\<lparr>risks := r7\<rparr>, None))))"

text \<open>
  The day loop over the sorted days. A day before \<^verbatim>\<open>today\<close> is passed over. After
  a body that ran to its end the loop stops once five days have been counted; a
  body ended by an exception is followed by the next day (the \<^verbatim>\<open>except\<close> clause
  of the loop: \<^verbatim>\<open>continue\<close>).
\<close>

fun day_loop :: "thresholds \<Rightarrow> date \<Rightarrow> loop_state \<Rightarrow> (date \<times> summary) list \<Rightarrow> loop_state" where
  "day_loop th today_date st [] = st"
| "day_loop th today_date st ((day_date, summary) # sorted_days) =
     (if day_date < today_date then day_loop th today_date st sorted_days
      else case assess_day th day_date summary st of
             (st', Some x) \<Rightarrow> day_loop th today_date st' sorted_days
           | (st', None) \<Rightarrow>
               if 5 \<le> days_processed_for_risk st' then st'
               else day_loop th today_date st' sorted_days)"

text \<open>
  The whole function. The keys of \<^verbatim>\<open>daily_summary\<close> are distinct, so visiting the
  sorted keys and reading each key's summary is visiting the items sorted by key.
  An exception that leaves the aggregation loop is caught by the outer \<^verbatim>\<open>except\<close>,
  which returns the report, still the initial one at that point.
\<close>

definition assess_climate_risks_enhanced :: "clock \<Rightarrow> json \<Rightarrow> thresholds \<Rightarrow> risk_report" where
  "assess_climate_risks_enhanced clk forecast_data th =
     (case forecast_data of
        JDict fd \<Rightarrow>
          (case map_of fd ''list'' of
             Some (JList (entry # forecast_list)) \<Rightarrow>
               (case aggregate clk [] (entry # forecast_list) of
                  Inl x \<Rightarrow> initial_risks
                | Inr daily_summary \<Rightarrow>
                    risks (day_loop th (today clk) initial_state (sort_key fst daily_summary)))
           | _ \<Rightarrow> initial_risks)
      | _ \<Rightarrow> initial_risks)"

section \<open>Predicates of the statements\<close>

text \<open>A report in which no category is flagged and nothing is recorded.\<close>

definition all_false :: "risk_report \<Rightarrow> bool" where
  "all_false r =
     (list_all (\<lambda>c. \<not> warning c \<and> details c = [])
        [drought r, flood_heavy_rain r, heatwave r, frost r, high_wind r,
         prolonged_high_humidity r]
      \<and> overall_alerts r = [])"

text \<open>A clock for the worked examples: the timestamp is the day of November 2026.\<close>

definition example_clock :: clock where
  "example_clock = \<lparr>today = (2026, 11, 3), fromtimestamp = (\<lambda>t. Inr (2026, 11, nat \<lfloor>t\<rfloor>))\<rparr>"


text \<open>
  Consistency of a report: a category with details is flagged, and every alert of
  the flat list is a detail of some category. \<open>alerts_ok\<close> extends this to the
  local list \<^verbatim>\<open>day_alerts\<close> of the day in progress.
\<close>

definition flags_cover_details :: "risk_report \<Rightarrow> bool" where
  "flags_cover_details r =
     list_all (\<lambda>c. details c \<noteq> [] \<longrightarrow> warning c)
       [drought r, flood_heavy_rain r, heatwave r, frost r, high_wind r,
        prolonged_high_humidity r]"

definition all_details :: "risk_report \<Rightarrow> string list" where
  "all_details r = concat (map details
       [drought r, flood_heavy_rain r, heatwave r, frost r, high_wind r,
        prolonged_high_humidity r])"

definition report_ok :: "risk_report \<Rightarrow> bool" where
  "report_ok r = (flags_cover_details r \<and> set (overall_alerts r) \<subseteq> set (all_details r))"

definition alerts_ok :: "risk_report \<times> string list \<Rightarrow> bool" where
  "alerts_ok = (\<lambda>(r, a). report_ok r \<and> set a \<subseteq> set (all_details r))"


text \<open>Forecast samples and a document for the worked examples.\<close>

definition sample :: "rat \<Rightarrow> rat \<Rightarrow> rat \<Rightarrow> rat \<Rightarrow> json \<Rightarrow> json" where
  "sample dt temp_max temp_min rain humidity =
     JDict [(''dt'', JNum dt),
            (''main'', JDict [(''temp_max'', JNum temp_max), (''temp_min'', JNum temp_min),
                              (''humidity'', humidity)]),
            (''rain'', JDict [(''3h'', JNum rain)])]"

definition frosty_forecast :: json where
  "frosty_forecast = JDict [(''list'', JList 
     [sample 3 20 1 0 (JNum 50), sample 4 20 5 1 (JNum 50)])]"

text \<open>
  The body of the day loop run on each day of a list, whatever way it ends: the
  state of the loop while it neither passes a day over nor stops.
\<close>

definition run_days :: "thresholds \<Rightarrow> loop_state \<Rightarrow> (date \<times> summary) list \<Rightarrow> loop_state" where
  "run_days th st days = fold (\<lambda>(d, s) st'. fst (assess_day th d s st')) days st"

text \<open>Every humidity reading of the day is \<^verbatim>\<open>None\<close> or numeric: the humidity check does not raise.\<close>

definition numeric_readings :: "summary \<Rightarrow> bool" where
  "numeric_readings s = list_all (\<lambda>h. h = JNull \<or> number h \<noteq> None) (humidity_readings s)"

text \<open>
  A date of the years 2 to 9998 with month and day in range: a few days before or
  after it are dates too, so the date arithmetic of the drought check does not raise.
\<close>

fun plain_date :: "date \<Rightarrow> bool" where
  "plain_date (y, m, d) = (2 \<le> y \<and> y \<le> 9998 \<and> 1 \<le> m \<and> m \<le> 12 \<and> 1 \<le> d \<and> d \<le> 31)"

text \<open>
  The sorted daily summaries that the day loop of the function visits, when the
  document passes validation and the aggregation loop is not left by an exception.
\<close>

definition daily_summaries :: "clock \<Rightarrow> json \<Rightarrow> (date \<times> summary) list option" where
  "daily_summaries clk forecast_data =
     (case forecast_data of
        JDict fd \<Rightarrow>
          (case map_of fd ''list'' of
             Some (JList (entry # forecast_list)) \<Rightarrow>
               (case aggregate clk [] (entry # forecast_list) of
                  Inl x \<Rightarrow> None
                | Inr daily_summary \<Rightarrow> Some (sort_key fst daily_summary))
           | _ \<Rightarrow> None)
      | _ \<Rightarrow> None)"





text \<open>The heatwave message for a streak of n days at threshold T ending on the given day.\<close>

definition heatwave_alert :: "nat \<Rightarrow> int \<Rightarrow> string \<Rightarrow> string" where
  "heatwave_alert n T day_str =
     ''Heatwave Risk: '' @ str_int (int n) @ '' consecutive days >= '' @ str_int T @ degree_C
     @ '' (ending '' @ day_str @ '').''"


text \<open>
  Six days, none before the example's today, the sixth with a minimum of 1 degree;
  the humidity reading of the fifth day is the parameter.
\<close>

definition six_day_forecast :: "json \<Rightarrow> json" where
  "six_day_forecast h = JDict [(''list'', JList
     [sample 3 20 10 5 (JNum 50), sample 4 20 10 5 (JNum 50), sample 5 20 10 5 (JNum 50),
      sample 6 20 10 5 (JNum 50), sample 7 20 10 5 h, sample 8 20 1 5 (JNum 50)])]"

text \<open>The daily summary that one sample of the examples gives.\<close>

definition example_day :: "nat \<Rightarrow> rat \<Rightarrow> json \<Rightarrow> date \<times> summary" where
  "example_day d tmin h = ((2026, 11, d), \<lparr>max_temp = 20, min_temp = tmin, total_rain = 5,
      max_wind_speed = 0, humidity_readings = [h], rain_3h_intervals = [5], count = 1\<rparr>)"






text \<open>The summary of a day while the aggregation runs: the stored one, or a new one.\<close>

definition current :: "daily_summary \<Rightarrow> date \<Rightarrow> summary" where
  "current ds d = (case map_of ds d of None \<Rightarrow> new_summary | Some s \<Rightarrow> s)"

section \<open>Properties of the threshold provider\<close>

lemma adjusted_object:
  "get_adjusted_thresholds h a crop stage =
     (h @ [adjust_maize crop stage (adjust_vegetables crop stage
             (adjust_rice crop stage (adjust_stage stage (h ! a))))], length h)"
  by (simp add: get_adjusted_thresholds_def Let_def)

text \<open>
  C6. With stage "Flowering" and crop "Rice" the result is rule 1 followed by rule 2,
  rule 2 reading the value rule 1 wrote. From the default thresholds this gives
  heatwave_temp_c = max(32, 38 - 3) = 35 and
  drought_risk_days = min(10, max(3, 7 - 2) + 3) = 8, whereas rule 2 applied to
  the base value alone would give min(10, 7 + 3) = 10.
\<close>

theorem flowering_rice_composition:
  "(case get_adjusted_thresholds h a ''Rice'' ''Flowering'' of
      (h', r) \<Rightarrow> h' ! r = spec_rule2 (spec_rule1 (h ! a)))
   \<and> (case get_adjusted_thresholds [DEFAULT_THRESHOLDS] 0 ''Rice'' ''Flowering'' of
      (h', r) \<Rightarrow> (h' ! r) ''heatwave_temp_c'' = Some 35
               \<and> (h' ! r) ''drought_risk_days'' = Some 8
               \<and> (h' ! r) ''drought_risk_days''
                    \<noteq> spec_rule2 DEFAULT_THRESHOLDS ''drought_risk_days''
               \<and> spec_rule2 DEFAULT_THRESHOLDS ''drought_risk_days'' = Some 10)"
  by (simp add: adjusted_object adjust_stage_def adjust_rice_def adjust_vegetables_def
      adjust_maize_def spec_rule1_def spec_rule2_def dict_get_def DEFAULT_THRESHOLDS_def)

lemma adjust_stage_frame:
  "k \<noteq> ''heatwave_temp_c'' \<Longrightarrow> k \<noteq> ''drought_risk_days'' \<Longrightarrow> adjust_stage stage t k = t k"
  by (simp add: adjust_stage_def Let_def)

lemma adjust_rice_frame:
  "k \<noteq> ''drought_risk_days'' \<Longrightarrow> adjust_rice crop stage t k = t k"
  by (simp add: adjust_rice_def)

lemma adjust_vegetables_frame:
  "k \<noteq> ''frost_risk_temp_c'' \<Longrightarrow> adjust_vegetables crop stage t k = t k"
  by (simp add: adjust_vegetables_def)

lemma adjust_maize_frame:
  "k \<noteq> ''high_wind_speed_ms'' \<Longrightarrow> adjust_maize crop stage t k = t k"
  by (simp add: adjust_maize_def)

text \<open>
  C8. The result of the adjustment is a new object: its address differs from the
  address of the base, every object of the store before the call, the base among
  them, is unchanged after it, and the new object agrees with the base on every key
  other than heatwave_temp_c, drought_risk_days, frost_risk_temp_c and
  high_wind_speed_ms.
\<close>

theorem adjust_copies_base:
  assumes "a < length h"
  shows "case get_adjusted_thresholds h a crop stage of
           (h', r) \<Rightarrow>
             r \<noteq> a \<and> r < length h' \<and> length h' = Suc (length h)
             \<and> (\<forall>b < length h. h' ! b = h ! b)
             \<and> h' ! a = h ! a
             \<and> (\<forall>k. k \<notin> {''heatwave_temp_c'', ''drought_risk_days'',
                          ''frost_risk_temp_c'', ''high_wind_speed_ms''}
                    \<longrightarrow> (h' ! r) k = (h ! a) k)"
  using assms
  by (simp add: adjusted_object nth_append adjust_stage_frame adjust_rice_frame
      adjust_vegetables_frame adjust_maize_frame)

theorem adjust_copies_base_witness:
  "(0::nat) < length [DEFAULT_THRESHOLDS]
   \<and> (case get_adjusted_thresholds [DEFAULT_THRESHOLDS] 0 ''Rice'' ''Flowering'' of
        (h', r) \<Rightarrow> r = 1 \<and> h' ! 0 = DEFAULT_THRESHOLDS
          \<and> (h' ! r) ''drought_risk_days'' = Some 8
          \<and> (h' ! 0) ''drought_risk_days'' = Some 7
          \<and> (h' ! r) ''heatwave_days'' = Some 3)"
  using adjust_copies_base [of 0 "[DEFAULT_THRESHOLDS]" "''Rice''" "''Flowering''"]
  by (simp add: adjusted_object adjust_stage_def adjust_rice_def adjust_vegetables_def
      adjust_maize_def dict_get_def DEFAULT_THRESHOLDS_def)

section \<open>Malformed forecast documents\<close>

text \<open>
  C1. A forecast document that is None, or not a dict, or a dict without the key
  "list", or one whose "list" is empty or is not a list, yields a report in which
  each of the six categories has its flag false and no details, and the list of
  overall alerts is empty. The function returns this report; no exception leaves it.
\<close>

theorem malformed_forecast_all_false:
  assumes "forecast_data = JNull
           \<or> (\<forall>fd. forecast_data \<noteq> JDict fd)
           \<or> (\<exists>fd. forecast_data = JDict fd \<and>
                 (map_of fd ''list'' = None
                  \<or> map_of fd ''list'' = Some (JList [])
                  \<or> (\<exists>v. map_of fd ''list'' = Some v \<and> (\<forall>l. v \<noteq> JList l))))"
  shows "all_false (assess_climate_risks_enhanced clk forecast_data th)"
proof -
  have "assess_climate_risks_enhanced clk forecast_data th = initial_risks"
    using assms
    by (auto simp: assess_climate_risks_enhanced_def split: json.splits option.splits list.splits)
  then show ?thesis
    by (simp add: all_false_def initial_risks_def no_warning_def)
qed

theorem malformed_forecast_all_false_witness:
  "all_false (assess_climate_risks_enhanced example_clock JNull DEFAULT_THRESHOLDS)
   \<and> all_false (assess_climate_risks_enhanced example_clock (JStr ''x'') DEFAULT_THRESHOLDS)
   \<and> all_false (assess_climate_risks_enhanced example_clock (JDict []) DEFAULT_THRESHOLDS)
   \<and> all_false (assess_climate_risks_enhanced example_clock
        (JDict [(''list'', JList [])]) DEFAULT_THRESHOLDS)
   \<and> all_false (assess_climate_risks_enhanced example_clock
        (JDict [(''list'', JNum 3)]) DEFAULT_THRESHOLDS)"
proof -
  have "all_false (assess_climate_risks_enhanced example_clock JNull DEFAULT_THRESHOLDS)"
    by (rule malformed_forecast_all_false) simp
  moreover have "all_false (assess_climate_risks_enhanced example_clock (JStr ''x'')
      DEFAULT_THRESHOLDS)"
    by (rule malformed_forecast_all_false) simp
  moreover have "all_false (assess_climate_risks_enhanced example_clock (JDict [])
      DEFAULT_THRESHOLDS)"
    by (rule malformed_forecast_all_false) simp
  moreover have "all_false (assess_climate_risks_enhanced example_clock
      (JDict [(''list'', JList [])]) DEFAULT_THRESHOLDS)"
    by (rule malformed_forecast_all_false) simp
  moreover have "all_false (assess_climate_risks_enhanced example_clock
      (JDict [(''list'', JNum 3)]) DEFAULT_THRESHOLDS)"
    by (rule malformed_forecast_all_false) simp
  ultimately show ?thesis by simp
qed

section \<open>The advisory composer\<close>

lemma detail_lines_closed:
  "i \<le> 7 \<Longrightarrow> detail_lines i xs =
     map (\<lambda>d. ''  - '' @ d) (take (7 - i) xs)
     @ (if 7 - i < length xs then [truncation_marker] else [])"
proof (induction xs arbitrary: i)
  case Nil
  then show ?case by simp
next
  case (Cons x xs)
  show ?case
  proof (cases "i < 7")
    case True
    then have "Suc i \<le> 7" by simp
    from Cons.IH [OF this] True show ?thesis
      by (auto simp add: max_details_in_advisory_def take_Cons' Suc_diff_Suc)
  next
    case False
    with Cons.prems have "i = 7" by simp
    then show ?thesis by (simp add: max_details_in_advisory_def)
  qed
qed

text \<open>
  C7. For a report with at least one flagged category, the advisory is the title,
  the advice of the flagged categories, then (when the list of overall alerts is
  not empty) the details header followed by one line for each of the first 7 alerts
  and, exactly when there are more than 7 alerts, the marker line, which contains
  "and potentially more"; then the disclaimer. The marker line occurs nowhere in
  the advice or the disclaimer.
\<close>

theorem advisory_detail_truncation:
  assumes "list_ex warning [drought r, flood_heavy_rain r, heatwave r, frost r,
             high_wind r, prolonged_high_humidity r]"
  shows "generate_advisories_enhanced (Some r) ci =
           [''--- Climate Risk Advisories & Recommendations ---'']
           @ category_advice r ci
           @ (if overall_alerts r = [] then []
              else details_header
                   # map (\<lambda>d. ''  - '' @ d) (take 7 (overall_alerts r))
                   @ (if 7 < length (overall_alerts r) then [truncation_marker] else []))
           @ disclaimer
         \<and> sublist ''and potentially more'' truncation_marker
         \<and> truncation_marker \<notin> set (category_advice r ci)
         \<and> details_header \<notin> set (category_advice r ci)
         \<and> truncation_marker \<notin> set disclaimer"
proof -
  have m: "truncation_marker = ''  - ... ('' @ ''and potentially more'' @ '')''"
    by (simp add: truncation_marker_def)
  have 1: "sublist ''and potentially more'' truncation_marker"
    unfolding m by (rule sublist_appendI)
  have 2: "truncation_marker \<notin> set (category_advice r ci)"
    by (simp add: category_advice_def drought_advice_def truncation_marker_def)
  have 3: "details_header \<notin> set (category_advice r ci)"
    by (simp add: category_advice_def drought_advice_def details_header_def warning_sign_def)
  have 4: "truncation_marker \<notin> set disclaimer"
    by (simp add: disclaimer_def truncation_marker_def)
  show ?thesis using assms 1 2 3 4
    by (simp add: generate_advisories_enhanced_def detail_lines_closed)
qed

theorem advisory_detail_truncation_witness:
  "warning (frost (initial_risks\<lparr>frost := \<lparr>warning = True, details = [''a'']\<rparr>,
       overall_alerts :=
         [''a1'', ''a2'', ''a3'', ''a4'', ''a5'', ''a6'', ''a7'', ''a8'', ''a9'']\<rparr>))
   \<and> drop 3 (generate_advisories_enhanced
       (Some (initial_risks\<lparr>frost := \<lparr>warning = True, details = [''a'']\<rparr>,
         overall_alerts :=
           [''a1'', ''a2'', ''a3'', ''a4'', ''a5'', ''a6'', ''a7'', ''a8'', ''a9'']\<rparr>))
       Map.empty)
     = [''  - a1'', ''  - a2'', ''  - a3'', ''  - a4'', ''  - a5'', ''  - a6'', ''  - a7'',
        ''  - ... (and potentially more)''] @ disclaimer
   \<and> drop 3 (generate_advisories_enhanced
       (Some (initial_risks\<lparr>frost := \<lparr>warning = True, details = [''a'']\<rparr>,
         overall_alerts := [''a1'', ''a2'', ''a3'', ''a4'', ''a5'', ''a6'', ''a7'']\<rparr>))
       Map.empty)
     = [''  - a1'', ''  - a2'', ''  - a3'', ''  - a4'', ''  - a5'', ''  - a6'', ''  - a7'']
       @ disclaimer"
  using
    advisory_detail_truncation [of "initial_risks\<lparr>frost := \<lparr>warning = True, details = [''a'']\<rparr>,
       overall_alerts :=
         [''a1'', ''a2'', ''a3'', ''a4'', ''a5'', ''a6'', ''a7'', ''a8'', ''a9'']\<rparr>" Map.empty]
    advisory_detail_truncation [of "initial_risks\<lparr>frost := \<lparr>warning = True, details = [''a'']\<rparr>,
       overall_alerts := [''a1'', ''a2'', ''a3'', ''a4'', ''a5'', ''a6'', ''a7'']\<rparr>" Map.empty]
  by (simp add: initial_risks_def no_warning_def category_advice_def truncation_marker_def)

section \<open>The checks of one day\<close>







text \<open>The three ways the body of the day loop can end.\<close>

lemma assess_day_cases:
  obtains
    (humidity_fault) r1 a1 r2 a2 r3 a3 x where
      "check_frost th (strftime d) s (risks st, []) = (r1, a1)"
      "check_flood th (strftime d) s (r1, a1) = (r2, a2)"
      "check_wind th (strftime d) s (r2, a2) = (r3, a3)"
      "check_humidity th (strftime d) s (r3, a3) = Inl x"
      "assess_day th d s st =
         (st\<lparr>days_processed_for_risk := days_processed_for_risk st + 1, risks := r3\<rparr>, Some x)"
  | (drought_fault) r1 a1 r2 a2 r3 a3 r4 a4 r5 x dry where
      "check_frost th (strftime d) s (risks st, []) = (r1, a1)"
      "check_flood th (strftime d) s (r1, a1) = (r2, a2)"
      "check_wind th (strftime d) s (r2, a2) = (r3, a3)"
      "check_humidity th (strftime d) s (r3, a3) = Inr (r4, a4)"
      "dry = (if total_rain s \<le> of_int (dict_get th ''drought_risk_mm'' 2)
              then consecutive_dry_days st + 1 else 0)"
      "check_drought th d dry (r4, a4) = (r5, Inl x)"
      "assess_day th d s st =
         (st\<lparr>days_processed_for_risk := days_processed_for_risk st + 1,
              consecutive_dry_days := dry, risks := r5\<rparr>, Some x)"
  | (completed) r1 a1 r2 a2 r3 a3 r4 a4 r5 a5 r6 a6 dry hot where
      "check_frost th (strftime d) s (risks st, []) = (r1, a1)"
      "check_flood th (strftime d) s (r1, a1) = (r2, a2)"
      "check_wind th (strftime d) s (r2, a2) = (r3, a3)"
      "check_humidity th (strftime d) s (r3, a3) = Inr (r4, a4)"
      "dry = (if total_rain s \<le> of_int (dict_get th ''drought_risk_mm'' 2)
              then consecutive_dry_days st + 1 else 0)"
      "check_drought th d dry (r4, a4) = (r5, Inr a5)"
      "hot = (if of_int (dict_get th ''heatwave_temp_c'' 38) \<le> max_temp s
              then consecutive_hot_days st + 1 else 0)"
      "check_heatwave th (strftime d) hot (r5, a5) = (r6, a6)"
      "assess_day th d s st =
         (st\<lparr>days_processed_for_risk := days_processed_for_risk st + 1,
              consecutive_dry_days := dry, consecutive_hot_days := hot,
              risks := (if a6 \<noteq> [] then r6\<lparr>overall_alerts := overall_alerts r6 @ a6\<rparr> else r6)\<rparr>,
          None)"
proof -
  obtain r1 a1 where 1: "check_frost th (strftime d) s (risks st, []) = (r1, a1)"
    by (cases "check_frost th (strftime d) s (risks st, [])")
  obtain r2 a2 where 2: "check_flood th (strftime d) s (r1, a1) = (r2, a2)"
    by (cases "check_flood th (strftime d) s (r1, a1)")
  obtain r3 a3 where 3: "check_wind th (strftime d) s (r2, a2) = (r3, a3)"
    by (cases "check_wind th (strftime d) s (r2, a2)")
  show thesis
  proof (cases "check_humidity th (strftime d) s (r3, a3)")
    case (Inl x)
    show thesis
      by (rule humidity_fault [OF 1 2 3 Inl]) (simp add: assess_day_def 1 2 3 Inl)
  next
    case (Inr p)
    obtain r4 a4 where 4: "check_humidity th (strftime d) s (r3, a3) = Inr (r4, a4)"
      using Inr by (cases p) simp
    define dry where "dry = (if total_rain s \<le> of_int (dict_get th ''drought_risk_mm'' 2)
              then consecutive_dry_days st + 1 else 0)"
    obtain r5 y where 5: "check_drought th d dry (r4, a4) = (r5, y)"
      by (cases "check_drought th d dry (r4, a4)")
    show thesis
    proof (cases y)
      case (Inl x)
      show thesis
        by (rule drought_fault [OF 1 2 3 4 dry_def 5 [unfolded Inl]])
           (use 5 in \<open>auto simp add: assess_day_def 1 2 3 4 Inl dry_def Let_def split: if_splits\<close>)
    next
      case (Inr a5)
      define hot where "hot = (if of_int (dict_get th ''heatwave_temp_c'' 38) \<le> max_temp s
              then consecutive_hot_days st + 1 else 0)"
      obtain r6 a6 where 6: "check_heatwave th (strftime d) hot (r5, a5) = (r6, a6)"
        by (cases "check_heatwave th (strftime d) hot (r5, a5)")
      show thesis
        by (rule completed [OF 1 2 3 4 dry_def 5 [unfolded Inr] hot_def 6])
           (use 5 6 in \<open>auto simp add: assess_day_def 1 2 3 4 Inr dry_def hot_def Let_def split: if_splits\<close>)
    qed
  qed
qed

section \<open>Frost\<close>





section \<open>Consistency of the report\<close>

lemmas ok_defs = alerts_ok_def report_ok_def flags_cover_details_def all_details_def trigger_def

lemma trigger_frost_ok:
  "alerts_ok (r, a) \<Longrightarrow> alerts_ok (r\<lparr>frost := trigger x (frost r)\<rparr>, a @ [x])"
  by (auto simp: ok_defs)

lemma trigger_flood_ok:
  "alerts_ok (r, a) \<Longrightarrow>
     alerts_ok (r\<lparr>flood_heavy_rain := trigger x (flood_heavy_rain r)\<rparr>, a @ [x])"
  by (auto simp: ok_defs)

lemma trigger_wind_ok:
  "alerts_ok (r, a) \<Longrightarrow> alerts_ok (r\<lparr>high_wind := trigger x (high_wind r)\<rparr>, a @ [x])"
  by (auto simp: ok_defs)

lemma trigger_humidity_ok:
  "alerts_ok (r, a) \<Longrightarrow>
     alerts_ok (r\<lparr>prolonged_high_humidity := trigger x (prolonged_high_humidity r)\<rparr>, a @ [x])"
  by (auto simp: ok_defs)

lemma trigger_heatwave_ok:
  "alerts_ok (r, a) \<Longrightarrow> alerts_ok (r\<lparr>heatwave := trigger x (heatwave r)\<rparr>, a @ [x])"
  by (auto simp: ok_defs)

lemma flag_drought_ok:
  "alerts_ok (r, a) \<Longrightarrow> alerts_ok (r\<lparr>drought := (drought r)\<lparr>warning := True\<rparr>\<rparr>, a)"
  by (auto simp: ok_defs)

lemma detail_drought_ok:
  "alerts_ok (r, a) \<Longrightarrow> warning (drought r) \<Longrightarrow>
     alerts_ok (r\<lparr>drought := (drought r)\<lparr>details := details (drought r) @ [x]\<rparr>\<rparr>, a @ [x])"
  by (auto simp: ok_defs)

lemma check_frost_ok: "alerts_ok ra \<Longrightarrow> alerts_ok (check_frost th d s ra)"
  by (cases ra) (simp add: check_frost_def Let_def trigger_frost_ok)

lemma check_flood_ok: "alerts_ok ra \<Longrightarrow> alerts_ok (check_flood th d s ra)"
  by (cases ra) (simp add: check_flood_def Let_def trigger_flood_ok)

lemma check_wind_ok: "alerts_ok ra \<Longrightarrow> alerts_ok (check_wind th d s ra)"
  by (cases ra) (simp add: check_wind_def Let_def trigger_wind_ok)

lemma check_humidity_ok:
  "alerts_ok ra \<Longrightarrow> check_humidity th d s ra = Inr ra' \<Longrightarrow> alerts_ok ra'"
  by (cases ra)
     (auto simp: check_humidity_def Let_def trigger_humidity_ok split: option.splits if_splits)

lemma check_drought_ok:
  assumes "alerts_ok (r, a)" "check_drought th d n (r, a) = (r', x)"
  shows "report_ok r' \<and> (\<forall>a'. x = Inr a' \<longrightarrow> alerts_ok (r', a'))"
proof -
  have "alerts_ok (r', case x of Inl e \<Rightarrow> a | Inr a' \<Rightarrow> a')"
    using assms flag_drought_ok [OF assms(1)]
      detail_drought_ok [OF flag_drought_ok [OF assms(1)]]
    by (auto simp: check_drought_def Let_def split: sum.splits if_splits)
  then show ?thesis
    by (cases x) (auto simp: alerts_ok_def)
qed

lemma check_heatwave_ok: "alerts_ok ra \<Longrightarrow> alerts_ok (check_heatwave th d n ra)"
  by (cases ra) (simp add: check_heatwave_def Let_def trigger_heatwave_ok)

lemma alerts_ok_report: "alerts_ok (r, a) \<Longrightarrow> report_ok r"
  by (simp add: alerts_ok_def)

lemma assess_day_ok:
  assumes "report_ok (risks st)"
  shows "report_ok (risks (fst (assess_day th d s st)))"
proof -
  have 0: "alerts_ok (risks st, [])" using assms by (simp add: alerts_ok_def)
  show ?thesis
  proof (cases rule: assess_day_cases [of th d s st])
    case (humidity_fault r1 a1 r2 a2 r3 a3 x)
    have "alerts_ok (r3, a3)"
      using check_wind_ok [OF check_flood_ok [OF check_frost_ok [OF 0, of th "strftime d" s],
          of th "strftime d" s], of th "strftime d" s]
      by (simp add: humidity_fault(1-3))
    then show ?thesis by (simp add: humidity_fault(5) alerts_ok_def)
  next
    case (drought_fault r1 a1 r2 a2 r3 a3 r4 a4 r5 x dry)
    have "alerts_ok (r3, a3)"
      using check_wind_ok [OF check_flood_ok [OF check_frost_ok [OF 0, of th "strftime d" s],
          of th "strftime d" s], of th "strftime d" s]
      by (simp add: drought_fault(1-3))
    then have "alerts_ok (r4, a4)"
      using check_humidity_ok drought_fault(4) by blast
    then have "report_ok r5"
      using check_drought_ok drought_fault(6) by blast
    then show ?thesis by (simp add: drought_fault(7))
  next
    case (completed r1 a1 r2 a2 r3 a3 r4 a4 r5 a5 r6 a6 dry hot)
    have "alerts_ok (r3, a3)"
      using check_wind_ok [OF check_flood_ok [OF check_frost_ok [OF 0, of th "strftime d" s],
          of th "strftime d" s], of th "strftime d" s]
      by (simp add: completed(1-3))
    then have "alerts_ok (r4, a4)"
      using check_humidity_ok completed(4) by blast
    then have "alerts_ok (r5, a5)"
      using check_drought_ok completed(6) by blast
    then have "alerts_ok (r6, a6)"
      using check_heatwave_ok [of "(r5, a5)" th "strftime d" hot] by (simp add: completed(8))
    then show ?thesis
      by (auto simp: completed(9) ok_defs)
  qed
qed

lemma day_loop_ok:
  "report_ok (risks st) \<Longrightarrow> report_ok (risks (day_loop th t st days))"
proof (induction days arbitrary: st)
  case Nil
  then show ?case by simp
next
  case (Cons p days)
  obtain d s where p: "p = (d, s)" by (cases p)
  obtain st' x where a: "assess_day th d s st = (st', x)" by (cases "assess_day th d s st")
  have "report_ok (risks st')"
    using assess_day_ok [OF Cons.prems, of th d s] by (simp add: a)
  then show ?case
    using Cons by (auto simp: p a split: option.splits)
qed

text \<open>
  C10. In the report returned for any input, every category whose list of details
  is not empty has its flag set, and every string of the flat list of overall
  alerts is a detail of some category.
\<close>

theorem report_flags_and_alerts_consistent:
  "flags_cover_details (assess_climate_risks_enhanced clk forecast_data th)
   \<and> set (overall_alerts (assess_climate_risks_enhanced clk forecast_data th))
       \<subseteq> set (all_details (assess_climate_risks_enhanced clk forecast_data th))"
proof -
  have i: "report_ok initial_risks"
    by (simp add: ok_defs initial_risks_def no_warning_def)
  then have "report_ok (risks initial_state)" by (simp add: initial_state_def)
  from day_loop_ok [OF this] i
  have "report_ok (assess_climate_risks_enhanced clk forecast_data th)"
    by (auto simp: assess_climate_risks_enhanced_def split: json.splits option.splits list.splits sum.splits)
  then show ?thesis by (simp add: report_ok_def)
qed


text \<open>The equations that evaluate the model on a concrete forecast.\<close>

lemmas eval_simps = assess_climate_risks_enhanced_def aggregate_entry_def update_summary_def
  obj_get_def example_clock_def new_summary_def initial_state_def initial_risks_def no_warning_def
  assess_day_def check_frost_def check_flood_def check_wind_def check_humidity_def
  check_drought_def check_heatwave_def dict_get_def DEFAULT_THRESHOLDS_def trigger_def
  zero_pad_def show_nat.simps format_f_def round_half_even_def str_int_def degree_C_def
  date_minus_days_def ord2ymd_def MAXORDINAL_def days_before_year_def days_before_month_def
  DAYS_BEFORE_MONTH_def DAYS_IN_MONTH_def is_leap_def Let_def
  sample_def


theorem report_flags_and_alerts_consistent_witness:
  "flags_cover_details
     (assess_climate_risks_enhanced example_clock frosty_forecast DEFAULT_THRESHOLDS)
   \<and> set (overall_alerts
         (assess_climate_risks_enhanced example_clock frosty_forecast DEFAULT_THRESHOLDS))
       \<subseteq> set (all_details
         (assess_climate_risks_enhanced example_clock frosty_forecast DEFAULT_THRESHOLDS))
   \<and> warning (frost
         (assess_climate_risks_enhanced example_clock frosty_forecast DEFAULT_THRESHOLDS))
   \<and> overall_alerts
         (assess_climate_risks_enhanced example_clock frosty_forecast DEFAULT_THRESHOLDS)
       = [''Frost Risk on 2026-11-03: Min temp forecast 1.0'' @ degree_C
          @ '' (Threshold: <= 2'' @ degree_C @ '').'']"
proof -
  have "overall_alerts
         (assess_climate_risks_enhanced example_clock frosty_forecast DEFAULT_THRESHOLDS)
       = [''Frost Risk on 2026-11-03: Min temp forecast 1.0'' @ degree_C
          @ '' (Threshold: <= 2'' @ degree_C @ '').'']"
    by (simp add: eval_simps frosty_forecast_def)
  moreover have "warning (frost
         (assess_climate_risks_enhanced example_clock frosty_forecast DEFAULT_THRESHOLDS))"
    by (simp add: eval_simps frosty_forecast_def)
  ultimately show ?thesis
    using report_flags_and_alerts_consistent
      [of example_clock frosty_forecast DEFAULT_THRESHOLDS]
    by simp
qed

section \<open>The day loop\<close>

lemma run_days_simps [simp]:
  "run_days th st [] = st"
  "run_days th st ((d, s) # days) = run_days th (fst (assess_day th d s st)) days"
  by (simp_all add: run_days_def)


lemma assess_day_count:
  "days_processed_for_risk (fst (assess_day th d s st)) = Suc (days_processed_for_risk st)"
  by (cases rule: assess_day_cases [of th d s st]) simp_all

lemma run_days_count:
  "days_processed_for_risk (run_days th st days) = days_processed_for_risk st + length days"
  by (induction days arbitrary: st) (auto simp: assess_day_count)




section \<open>Days that raise no exception\<close>

lemma days_before_month_le: "m \<le> 12 \<Longrightarrow> days_before_month y m \<le> 335"
proof -
  assume "m \<le> 12"
  then have "m = 0 \<or> m = 1 \<or> m = 2 \<or> m = 3 \<or> m = 4 \<or> m = 5 \<or> m = 6 \<or> m = 7
      \<or> m = 8 \<or> m = 9 \<or> m = 10 \<or> m = 11 \<or> m = 12" by arith
  then show ?thesis
    by (auto simp: days_before_month_def DAYS_BEFORE_MONTH_def)
qed

lemma ymd2ord_bounds:
  assumes "plain_date d"
  shows "366 \<le> ymd2ord d \<and> ymd2ord d \<le> 3651794"
proof -
  obtain y m dd where d: "d = (y, m, dd)" by (cases d)
  from assms have b: "2 \<le> y" "y \<le> 9998" "m \<le> 12" "1 \<le> dd" "dd \<le> 31"
    by (simp_all add: d)
  have lo: "365 \<le> days_before_year y"
    using b(1) by (simp add: days_before_year_def Let_def; arith)
  have hi: "days_before_year y \<le> 3651428"
    using b(2) by (simp add: days_before_year_def Let_def; arith)
  show ?thesis
    using lo hi days_before_month_le [OF b(3), of y] b(4,5) by (simp add: d)
qed

lemma date_minus_days_plain:
  assumes "plain_date d" "- 1 \<le> n" "n \<le> 365"
  shows "date_minus_days d n = Inr (ord2ymd (nat (int (ymd2ord d) - n)))"
  using ymd2ord_bounds [OF assms(1)] assms(2,3)
  by (simp add: date_minus_days_def Let_def MAXORDINAL_def)

lemma check_humidity_numeric:
  assumes "numeric_readings s"
  shows "\<exists>p. check_humidity th ds s (r, a) = Inr p"
proof -
  have "those (map number (filter (\<lambda>h. h \<noteq> JNull) hs)) \<noteq> None"
    if "list_all (\<lambda>h. h = JNull \<or> number h \<noteq> None) hs" for hs
    using that by (induction hs) auto
  from this [OF assms [unfolded numeric_readings_def]]
  show ?thesis
    by (auto simp: check_humidity_def Let_def split: option.splits)
qed

lemma check_drought_plain:
  assumes "plain_date d" "n \<le> 366"
  shows "\<exists>r' a'. check_drought th d n (r, a) = (r', Inr a')"
proof -
  have "date_minus_days d (int n - 1) = Inr (ord2ymd (nat (int (ymd2ord d) - (int n - 1))))"
    using date_minus_days_plain [OF assms(1), of "int n - 1"] assms(2) by auto
  then show ?thesis
    by (simp add: check_drought_def Let_def)
qed

text \<open>No exception on a day with numeric readings and a plain date.\<close>

lemma assess_day_completes:
  assumes "numeric_readings s" "plain_date d" "consecutive_dry_days st \<le> 365"
  shows "snd (assess_day th d s st) = None"
proof (cases rule: assess_day_cases [of th d s st])
  case (humidity_fault r1 a1 r2 a2 r3 a3 x)
  then show ?thesis
    using check_humidity_numeric [OF assms(1), of th "strftime d" r3 a3] by simp
next
  case (drought_fault r1 a1 r2 a2 r3 a3 r4 a4 r5 x dry)
  have "dry \<le> 366" using assms(3) by (simp add: drought_fault(5))
  from check_drought_plain [OF assms(2) this, of th r4 a4] drought_fault(6)
  show ?thesis by simp
next
  case (completed r1 a1 r2 a2 r3 a3 r4 a4 r5 a5 r6 a6 dry hot)
  then show ?thesis by simp
qed

lemma assess_day_dry_le:
  "consecutive_dry_days (fst (assess_day th d s st)) \<le> Suc (consecutive_dry_days st)"
  by (cases rule: assess_day_cases [of th d s st]) simp_all


section \<open>Drought\<close>

lemma assess_by_day_loop:
  "daily_summaries clk forecast_data = Some days \<Longrightarrow>
     assess_climate_risks_enhanced clk forecast_data th
       = risks (day_loop th (today clk) initial_state days)"
  by (auto simp: daily_summaries_def assess_climate_risks_enhanced_def
      split: json.splits option.splits list.splits sum.splits)

lemma assess_without_summaries:
  "daily_summaries clk forecast_data = None \<Longrightarrow>
     assess_climate_risks_enhanced clk forecast_data th = initial_risks"
  by (auto simp: daily_summaries_def assess_climate_risks_enhanced_def
      split: json.splits option.splits list.splits sum.splits)

















section \<open>Rendered dates and the substring test\<close>
















lemma ending_own_date: "sublist (''ending '' @ ds) (heatwave_alert n T ds)"
proof -
  have "heatwave_alert n T ds = (''Heatwave Risk: '' @ str_int (int n)
      @ '' consecutive days >= '' @ str_int T @ degree_C @ '' ('') @ (''ending '' @ ds) @ '').''"
    by (simp add: heatwave_alert_def)
  then show ?thesis
    unfolding sublist_def by blast
qed

section \<open>Heatwave\<close>











section \<open>The five-day limit\<close>

lemma six_day_summaries:
  "daily_summaries example_clock (six_day_forecast (JStr ''80''))
     = Some [example_day 3 10 (JNum 50), example_day 4 10 (JNum 50), example_day 5 10 (JNum 50),
             example_day 6 10 (JNum 50), example_day 7 10 (JStr ''80''), example_day 8 1 (JNum 50)]"
  "daily_summaries example_clock (six_day_forecast (JNum 80))
     = Some [example_day 3 10 (JNum 50), example_day 4 10 (JNum 50), example_day 5 10 (JNum 50),
             example_day 6 10 (JNum 50), example_day 7 10 (JNum 80), example_day 8 1 (JNum 50)]"
  by code_simp+

lemma quiet_day:
  "assess_day DEFAULT_THRESHOLDS (2026, 11, d)
     \<lparr>max_temp = 20, min_temp = 10, total_rain = 5,
      max_wind_speed = 0, humidity_readings = [JNum 50], rain_3h_intervals = [5], count = c\<rparr> st
   = (st\<lparr>days_processed_for_risk := Suc (days_processed_for_risk st),
          consecutive_dry_days := 0, consecutive_hot_days := 0\<rparr>, None)"
  "assess_day DEFAULT_THRESHOLDS (2026, 11, d)
     \<lparr>max_temp = 20, min_temp = 10, total_rain = 5,
      max_wind_speed = 0, humidity_readings = [JNum 80], rain_3h_intervals = [5], count = c\<rparr> st
   = (st\<lparr>days_processed_for_risk := Suc (days_processed_for_risk st),
          consecutive_dry_days := 0, consecutive_hot_days := 0\<rparr>, None)"
  by (simp_all add: assess_day_def check_frost_def check_flood_def check_wind_def
      check_humidity_def check_drought_def check_heatwave_def dict_get_def
      DEFAULT_THRESHOLDS_def Let_def)

lemma faulting_day:
  "assess_day DEFAULT_THRESHOLDS (2026, 11, d)
     \<lparr>max_temp = 20, min_temp = 10, total_rain = 5,
      max_wind_speed = 0, humidity_readings = [JStr ''80''], rain_3h_intervals = [5],
      count = c\<rparr> st
   = (st\<lparr>days_processed_for_risk := Suc (days_processed_for_risk st)\<rparr>, Some TypeError)"
  by (simp add: assess_day_def check_frost_def check_flood_def check_wind_def check_humidity_def
      dict_get_def DEFAULT_THRESHOLDS_def Let_def)

lemma frosty_day:
  "assess_day DEFAULT_THRESHOLDS (2026, 11, 8)
     \<lparr>max_temp = 20, min_temp = 1, total_rain = 5,
      max_wind_speed = 0, humidity_readings = [JNum 50], rain_3h_intervals = [5], count = c\<rparr> st
   = (st\<lparr>days_processed_for_risk := Suc (days_processed_for_risk st),
          consecutive_dry_days := 0, consecutive_hot_days := 0,
          risks := (risks st)\<lparr>frost := trigger
              (''Frost Risk on 2026-11-08: Min temp forecast 1.0'' @ degree_C
               @ '' (Threshold: <= 2'' @ degree_C @ '').'') (frost (risks st)),
            overall_alerts := overall_alerts (risks st)
              @ [''Frost Risk on 2026-11-08: Min temp forecast 1.0'' @ degree_C
                 @ '' (Threshold: <= 2'' @ degree_C @ '').'']\<rparr>\<rparr>, None)"
  by (simp add: assess_day_def check_frost_def check_flood_def check_wind_def
      check_humidity_def check_drought_def check_heatwave_def dict_get_def
      DEFAULT_THRESHOLDS_def Let_def zero_pad_def show_nat.simps format_f_def
      round_half_even_def str_int_def)

text \<open>
  C4. The day loop visits the sorted days in ascending order and passes over the days
  before today (\<open>daily_summaries_keys\<close>, \<open>day_loop_filter\<close>); when every day is
  evaluated to its end it runs the body on the first five remaining days and on no
  other (\<open>day_loop_five_days\<close>), and when every day is before today the report is all
  false (\<open>all_past_all_false\<close>). The limit of five days, however, is checked only at
  the end of the body: on the forecast of six days whose fifth day carries the
  humidity reading "80", a string, the humidity check of the fifth day raises, the
  check of the limit is skipped, and the sixth day is evaluated; its frost alert is in
  the report and six days are counted. With the number 80 in its place the loop stops
  after five days and the report is all false.
\<close>

theorem five_day_cap_missed:
  "overall_alerts (assess_climate_risks_enhanced example_clock (six_day_forecast (JStr ''80''))
       DEFAULT_THRESHOLDS)
     = [''Frost Risk on 2026-11-08: Min temp forecast 1.0'' @ degree_C
        @ '' (Threshold: <= 2'' @ degree_C @ '').'']
   \<and> days_processed_for_risk (day_loop DEFAULT_THRESHOLDS (today example_clock) initial_state
       [example_day 3 10 (JNum 50), example_day 4 10 (JNum 50), example_day 5 10 (JNum 50),
        example_day 6 10 (JNum 50), example_day 7 10 (JStr ''80''), example_day 8 1 (JNum 50)])
     = 6
   \<and> all_false (assess_climate_risks_enhanced example_clock (six_day_forecast (JNum 80))
       DEFAULT_THRESHOLDS)
   \<and> days_processed_for_risk (day_loop DEFAULT_THRESHOLDS (today example_clock) initial_state
       [example_day 3 10 (JNum 50), example_day 4 10 (JNum 50), example_day 5 10 (JNum 50),
        example_day 6 10 (JNum 50), example_day 7 10 (JNum 80), example_day 8 1 (JNum 50)])
     = 5"
proof -
  have t: "today example_clock = (2026, 11, 3)"
    by (simp add: example_clock_def)
  let ?alert = "''Frost Risk on 2026-11-08: Min temp forecast 1.0'' @ degree_C
        @ '' (Threshold: <= 2'' @ degree_C @ '').''"
  have faulty: "day_loop DEFAULT_THRESHOLDS (2026, 11, 3) initial_state
       [example_day 3 10 (JNum 50), example_day 4 10 (JNum 50), example_day 5 10 (JNum 50),
        example_day 6 10 (JNum 50), example_day 7 10 (JStr ''80''), example_day 8 1 (JNum 50)]
     = \<lparr>risks = initial_risks\<lparr>frost := \<lparr>warning = True, details = [?alert]\<rparr>,
                                  overall_alerts := [?alert]\<rparr>,
        consecutive_dry_days = 0, consecutive_hot_days = 0, days_processed_for_risk = 6\<rparr>"
    by (simp add: example_day_def quiet_day faulting_day frosty_day initial_state_def
        initial_risks_def no_warning_def trigger_def)
  have sound: "day_loop DEFAULT_THRESHOLDS (2026, 11, 3) initial_state
       [example_day 3 10 (JNum 50), example_day 4 10 (JNum 50), example_day 5 10 (JNum 50),
        example_day 6 10 (JNum 50), example_day 7 10 (JNum 80), example_day 8 1 (JNum 50)]
     = \<lparr>risks = initial_risks,
        consecutive_dry_days = 0, consecutive_hot_days = 0, days_processed_for_risk = 5\<rparr>"
    by (simp add: example_day_def quiet_day initial_state_def)
  show ?thesis
    unfolding assess_by_day_loop [OF six_day_summaries(1)]
      assess_by_day_loop [OF six_day_summaries(2)] t faulty sound
    by (simp add: all_false_def initial_risks_def no_warning_def)
qed

lemma day_loop_all_past:
  "list_all (\<lambda>(d, s). d < t) days \<Longrightarrow> day_loop th t st days = st"
  by (induction days) auto

lemma all_past_all_false:
  assumes "daily_summaries clk forecast_data = Some days"
    and "list_all (\<lambda>(d, s). d < today clk) days"
  shows "all_false (assess_climate_risks_enhanced clk forecast_data th)"
  using day_loop_all_past [OF assms(2), of th initial_state]
  by (simp add: assess_by_day_loop [OF assms(1)] initial_state_def initial_risks_def
      no_warning_def all_false_def)

lemma assess_day_counters:
  "consecutive_dry_days st \<le> days_processed_for_risk st \<Longrightarrow>
     consecutive_dry_days (fst (assess_day th d s st))
       \<le> days_processed_for_risk (fst (assess_day th d s st))"
  using assess_day_dry_le [of th d s st] by (simp add: assess_day_count)

text \<open>
  When every processed day is evaluated to its end, the loop runs the body on the
  first five processed days and on no other.
\<close>

lemma day_loop_five_days:
  assumes "list_all (\<lambda>(d, s). numeric_readings s \<and> plain_date d) days"
    and "days_processed_for_risk st < 5"
    and "consecutive_dry_days st \<le> days_processed_for_risk st"
  shows "day_loop th t st days
       = run_days th st (take (5 - days_processed_for_risk st) (filter (\<lambda>(d, s). \<not> d < t) days))"
  using assms
proof (induction days arbitrary: st)
  case Nil
  then show ?case by simp
next
  case (Cons p days)
  obtain d s where p: "p = (d, s)" by (cases p)
  show ?case
  proof (cases "d < t")
    case True
    then show ?thesis
      using Cons by (simp add: p)
  next
    case False
    obtain st' x where a: "assess_day th d s st = (st', x)" by (cases "assess_day th d s st")
    have "x = None"
      using assess_day_completes [of s d st th] Cons.prems by (simp add: p a)
    have c: "days_processed_for_risk st' = Suc (days_processed_for_risk st)"
      using assess_day_count [of th d s st] by (simp add: a)
    have k: "consecutive_dry_days st' \<le> days_processed_for_risk st'"
      using assess_day_counters [OF Cons.prems(3), of th d s] by (simp add: a)
    obtain n where n: "5 - days_processed_for_risk st = Suc n"
      using Cons.prems(2) by (cases "5 - days_processed_for_risk st") auto
    show ?thesis
    proof (cases "5 \<le> days_processed_for_risk st'")
      case True
      then have "n = 0" using n c by simp
      then show ?thesis
        using False True n by (simp add: p a \<open>x = None\<close>)
    next
      case stop: False
      then have "days_processed_for_risk st' < 5" by simp
      moreover have "list_all (\<lambda>(d, s). numeric_readings s \<and> plain_date d) days"
        using Cons.prems(1) by simp
      ultimately have "day_loop th t st' days
          = run_days th st' (take (5 - days_processed_for_risk st')
              (filter (\<lambda>(d, s). \<not> d < t) days))"
        using k by (intro Cons.IH)
      moreover have "5 - days_processed_for_risk st' = n"
        using n c by simp
      ultimately show ?thesis
        using False stop n by (simp add: p a \<open>x = None\<close>)
    qed
  qed
qed

section \<open>Daily summaries\<close>

















end
